theory Spec2Isabelle
  imports Main
begin

section \<open>Python values and exceptions\<close>

text \<open>
  The orchestration layer of \<^verbatim>\<open>src/encoding/manager.py\<close> never looks inside a
  data frame, a label series, or the state of one of its collaborators. Frames
  (\<open>'f\<close>), label series (\<open>'s\<close>), the state of an encoder strategy (\<open>'e\<close>), of the
  missing-value handler (\<open>'h\<close>) and of the profiler (\<open>'p\<close>) are therefore type
  parameters. Frames and series are immutable values: a collaborator returns a
  new frame and does not change the one it was given.

  A Python \<^verbatim>\<open>str\<close> is kept as a \<open>string\<close>: ASCII text as itself, any other text
  as its UTF-8 bytes. Two texts are equal exactly when their bytes are, and
  joining texts joins their bytes.
\<close>

text \<open>
  The values a missing-value sentinel can take (\<^verbatim>\<open>str | int | float | None\<close>,
  default \<^verbatim>\<open>np.nan\<close>). A finite float is kept as mantissa and exponent; no
  arithmetic is ever done on it here.
\<close>

datatype pyval = PyNone | PyNaN | PyStr string | PyInt int | PyFloat int int

text \<open>
  Exceptions as values. \<open>ValueError\<close> is what the constructor raises itself,
  \<open>KeyError\<close> what a subscript on a dict without the key raises,
  \<open>FileNotFoundError\<close> what the object codec raises on a path that was never
  written. \<open>Raised t m\<close> is any other exception of type name \<open>t\<close> with message
  \<open>m\<close>; collaborators may raise any of the four.
\<close>

datatype exn =
    ValueError string
  | KeyError string
  | FileNotFoundError string
  | Raised string string

section \<open>The collaborators\<close>

text \<open>Keyword arguments forwarded to a strategy constructor (\<^verbatim>\<open>**encoder_kwargs\<close>).\<close>

type_synonym kwargs = "(string \<times> pyval) list"

text \<open>
  \<^verbatim>\<open>Type[Encoder]\<close>: a class that can be put into the registry. It has a name
  (\<^verbatim>\<open>__name__\<close>), a constructor taking keyword arguments, and the two methods
  of the \<^verbatim>\<open>Encoder\<close> protocol. A constructor may raise. A method returns its
  outcome together with the new state of the instance, so a method that raises
  after changing the instance is covered.
\<close>

record ('f, 's, 'e) encoder_class =
  cls_name :: string
  cls_new :: "kwargs \<Rightarrow> exn + 'e"
  cls_fit :: "'e \<Rightarrow> 'f \<Rightarrow> 's \<Rightarrow> (exn + unit) \<times> 'e"
  cls_transform :: "'e \<Rightarrow> 'f \<Rightarrow> (exn + 'f) \<times> 'e"

text \<open>An instance: its class (\<^verbatim>\<open>__class__\<close>) and its attribute state.\<close>

record ('f, 's, 'e) encoder_obj =
  obj_class :: "('f, 's, 'e) encoder_class"
  obj_state :: 'e

text \<open>\<^verbatim>\<open>enc.fit(X, y)\<close> and \<^verbatim>\<open>enc.transform(X)\<close>: dispatch on the class of the instance.\<close>

definition enc_fit ::
  "('f, 's, 'e) encoder_obj \<Rightarrow> 'f \<Rightarrow> 's \<Rightarrow> (exn + unit) \<times> ('f, 's, 'e) encoder_obj" where
  "enc_fit enc X y =
     (case cls_fit (obj_class enc) (obj_state enc) X y of
        (r, st) \<Rightarrow> (r, enc\<lparr>obj_state := st\<rparr>))"

definition enc_transform ::
  "('f, 's, 'e) encoder_obj \<Rightarrow> 'f \<Rightarrow> (exn + 'f) \<times> ('f, 's, 'e) encoder_obj" where
  "enc_transform enc X =
     (case cls_transform (obj_class enc) (obj_state enc) X of
        (r, st) \<Rightarrow> (r, enc\<lparr>obj_state := st\<rparr>))"

text \<open>
  What the orchestration layer calls and does not define: the two fixed
  collaborator classes, \<^verbatim>\<open>MissingHandler\<close> (from \<^verbatim>\<open>.missing\<close>) and \<^verbatim>\<open>MemoryManager\<close>
  (from \<^verbatim>\<open>.memory_manager\<close>), and the interpreter's \<^verbatim>\<open>str.lower\<close>. They are
  parameters of every operation below, so what is proved holds whatever they
  do.

  \<open>str_lower s\<close> is \<^verbatim>\<open>s.lower()\<close>. Python lower-cases by the Unicode case
  mapping, which changes letters outside ASCII too and may change the length
  of a text, so it is not defined here: \<^verbatim>\<open>load\<close> is modelled with the
  interpreter's own function, whichever it is.

  \<open>MissingHandler (Some v)\<close> is \<^verbatim>\<open>MissingHandler(sentinel=v)\<close> and
  \<open>MissingHandler None\<close> is \<^verbatim>\<open>MissingHandler()\<close>; \<open>MemoryManager\<close> is
  \<^verbatim>\<open>MemoryManager()\<close>. \<open>profiler_truthy p\<close> is \<^verbatim>\<open>bool(p)\<close>, which the \<^verbatim>\<open>or\<close> of
  the constructor tests.

  Modelled from the spec: the two constructors. Construction "instantiates
  exactly one missing-value handler (configured with the sentinel), and retains
  or creates a profiler", so \<^verbatim>\<open>MissingHandler(...)\<close> and \<^verbatim>\<open>MemoryManager()\<close> return
  an instance and do not raise.

  Modelled from the spec: the resource profiler. \<^verbatim>\<open>MemoryManager.profile(label)\<close>
  is "a scoped-acquisition operation taking a phase label (string), returning a
  handle whose release is guaranteed on scope exit", on all exit paths,
  "including exceptions raised by the wrapped strategy call". So entering and
  leaving a scope are two total changes of the profiler's state, neither of
  which raises or suppresses an exception of the body.
\<close>

record ('f, 'h, 'p) collaborators =
  MissingHandler :: "pyval option \<Rightarrow> 'h"
  mh_fit_transform :: "'h \<Rightarrow> 'f \<Rightarrow> (exn + 'f) \<times> 'h"
  mh_transform :: "'h \<Rightarrow> 'f \<Rightarrow> (exn + 'f) \<times> 'h"
  MemoryManager :: 'p
  profiler_truthy :: "'p \<Rightarrow> bool"
  profile_enter :: "string \<Rightarrow> 'p \<Rightarrow> 'p"
  profile_exit :: "string \<Rightarrow> 'p \<Rightarrow> 'p"
  str_lower :: "string \<Rightarrow> string"

section \<open>Process state: the registry\<close>

text \<open>
  Which collaborator objects have been constructed so far, in order. A
  constructor call that returns adds one entry.
\<close>

datatype created = Strategy string | Handler | Profiler

text \<open>
  \<^verbatim>\<open>EncodingManager._registry\<close> is a class attribute, one dict for the whole
  process.
\<close>

record ('f, 's, 'e) process =
  registry :: "string \<rightharpoonup> ('f, 's, 'e) encoder_class"
  constructed :: "created list"

text \<open>
  The registry as the class body sets it up. The four classes come from
  \<^verbatim>\<open>.encoders\<close>.
\<close>

definition builtin_registry ::
  "('f, 's, 'e) encoder_class \<Rightarrow> ('f, 's, 'e) encoder_class \<Rightarrow>
   ('f, 's, 'e) encoder_class \<Rightarrow> ('f, 's, 'e) encoder_class \<Rightarrow>
   (string \<rightharpoonup> ('f, 's, 'e) encoder_class)" where
  "builtin_registry WOEGuard TargetEncoder LeaveOneOutEncoder OneHotEncoder =
     [''woe'' \<mapsto> WOEGuard,
      ''target'' \<mapsto> TargetEncoder,
      ''leave_one_out'' \<mapsto> LeaveOneOutEncoder,
      ''onehot'' \<mapsto> OneHotEncoder]"

text \<open>\<^verbatim>\<open>register\<close>: \<^verbatim>\<open>cls._registry[name] = encoder_cls\<close>.\<close>

definition register ::
  "string \<Rightarrow> ('f, 's, 'e) encoder_class \<Rightarrow> ('f, 's, 'e) process \<Rightarrow> ('f, 's, 'e) process" where
  "register name encoder_cls P = P\<lparr>registry := (registry P)(name \<mapsto> encoder_cls)\<rparr>"

section \<open>The manager\<close>

record ('f, 's, 'e, 'h, 'p) manager =
  encoder_cls :: "('f, 's, 'e) encoder_class"
  encoder :: "('f, 's, 'e) encoder_obj"
  memory_manager :: 'p
  missing_handler :: 'h

definition not_registered :: "string \<Rightarrow> exn" where
  "not_registered encoding =
     ValueError (''Encoding '' @ [CHR 0x27] @ encoding @ [CHR 0x27] @ '' not registered'')"

text \<open>
  The left operand of \<^verbatim>\<open>memory_manager or MemoryManager()\<close> when the \<^verbatim>\<open>or\<close>
  takes it: the caller passed a profiler and it is truthy.
\<close>

definition injected :: "('f, 'h, 'p) collaborators \<Rightarrow> 'p option \<Rightarrow> 'p option" where
  "injected C memory_manager_arg =
     (case memory_manager_arg of
        None \<Rightarrow> None
      | Some p \<Rightarrow> if profiler_truthy C p then Some p else None)"

text \<open>
  \<^verbatim>\<open>__init__\<close>. An argument the caller leaves out is \<open>None\<close>: the scheme name
  then is \<^verbatim>\<open>"onehot"\<close>, the sentinel \<^verbatim>\<open>np.nan\<close>, and a profiler is constructed
  (\<^verbatim>\<open>memory_manager or MemoryManager()\<close>). The statements run in the source's
  order: the registry check, the strategy constructor, the profiler, the
  handler.
\<close>

definition init ::
  "('f, 'h, 'p) collaborators \<Rightarrow> string option \<Rightarrow> 'p option \<Rightarrow> pyval option \<Rightarrow> kwargs \<Rightarrow>
   ('f, 's, 'e) process \<Rightarrow> (exn + ('f, 's, 'e, 'h, 'p) manager) \<times> ('f, 's, 'e) process" where
  "init C encoding_arg memory_manager_arg missing_sentinel_arg encoder_kwargs P =
     (let encoding = (case encoding_arg of None \<Rightarrow> ''onehot'' | Some n \<Rightarrow> n);
          missing_sentinel = (case missing_sentinel_arg of None \<Rightarrow> PyNaN | Some v \<Rightarrow> v)
      in (case registry P encoding of
           None \<Rightarrow> (Inl (not_registered encoding), P)
         | Some cls \<Rightarrow>
             (case cls_new cls encoder_kwargs of
                Inl e \<Rightarrow> (Inl e, P)
              | Inr st \<Rightarrow>
                  (let P1 = P\<lparr>constructed := constructed P @ [Strategy (cls_name cls)]\<rparr>;
                      (mm, P2) =
                        (case injected C memory_manager_arg of
                           Some p \<Rightarrow> (p, P1)
                         | None \<Rightarrow>
                             (MemoryManager C, P1\<lparr>constructed := constructed P1 @ [Profiler]\<rparr>));
                      mh = MissingHandler C (Some missing_sentinel);
                      P3 = P2\<lparr>constructed := constructed P2 @ [Handler]\<rparr>
                  in (Inr \<lparr>encoder_cls = cls,
                           encoder = \<lparr>obj_class = cls, obj_state = st\<rparr>,
                           memory_manager = mm,
                           missing_handler = mh\<rparr>, P3)))))"

text \<open>
  \<^verbatim>\<open>fit\<close>. The manager is mutated in place, so the manager after the call is
  returned next to the outcome, also when the call raises. The \<^verbatim>\<open>with\<close> block
  enters the profiling scope, calls the strategy, and leaves the scope whether
  or not the strategy raised.
\<close>

definition fit ::
  "('f, 'h, 'p) collaborators \<Rightarrow> ('f, 's, 'e, 'h, 'p) manager \<Rightarrow> 'f \<Rightarrow> 's \<Rightarrow>
   (exn + unit) \<times> ('f, 's, 'e, 'h, 'p) manager" where
  "fit C m X y =
     (case mh_fit_transform C (missing_handler m) X of
        (Inl e, h) \<Rightarrow> (Inl e, m\<lparr>missing_handler := h\<rparr>)
      | (Inr X_prep, h) \<Rightarrow>
          (case enc_fit (encoder m) X_prep y of
             (r, enc) \<Rightarrow>
               (r, m\<lparr>encoder := enc,
                     memory_manager :=
                       profile_exit C ''fit'' (profile_enter C ''fit'' (memory_manager m)),
                     missing_handler := h\<rparr>)))"

definition transform ::
  "('f, 'h, 'p) collaborators \<Rightarrow> ('f, 's, 'e, 'h, 'p) manager \<Rightarrow> 'f \<Rightarrow>
   (exn + 'f) \<times> ('f, 's, 'e, 'h, 'p) manager" where
  "transform C m X =
     (case mh_transform C (missing_handler m) X of
        (Inl e, h) \<Rightarrow> (Inl e, m\<lparr>missing_handler := h\<rparr>)
      | (Inr X_prep, h) \<Rightarrow>
          (case enc_transform (encoder m) X_prep of
             (r, enc) \<Rightarrow>
               (r, m\<lparr>encoder := enc,
                     memory_manager :=
                       profile_exit C ''transform''
                         (profile_enter C ''transform'' (memory_manager m)),
                     missing_handler := h\<rparr>)))"

text \<open>\<^verbatim>\<open>fit_transform\<close>: \<^verbatim>\<open>self.fit(X, y)\<close>, then \<^verbatim>\<open>return self.transform(X)\<close>.\<close>

definition fit_transform ::
  "('f, 'h, 'p) collaborators \<Rightarrow> ('f, 's, 'e, 'h, 'p) manager \<Rightarrow> 'f \<Rightarrow> 's \<Rightarrow>
   (exn + 'f) \<times> ('f, 's, 'e, 'h, 'p) manager" where
  "fit_transform C m X y =
     (case fit C m X y of
        (Inl e, m1) \<Rightarrow> (Inl e, m1)
      | (Inr u, m1) \<Rightarrow> transform C m1 X)"

section \<open>Serialization\<close>

definition VERSION_HEADER :: int where
  "VERSION_HEADER = 1"

text \<open>
  The payload dict. Each of its three keys may be absent (\<open>None\<close>); a key that
  is present holds a value of the kind \<^verbatim>\<open>save\<close> writes under it.
\<close>

record ('f, 's, 'e, 'h) payload =
  p_version :: "int option"
  p_encoder :: "('f, 's, 'e) encoder_obj option"
  p_missing_handler :: "'h option"

text \<open>
  The object codec (\<^verbatim>\<open>joblib.dump\<close>, \<^verbatim>\<open>joblib.load\<close>) is a store from paths to
  payloads: what was dumped under a path is what is loaded from it, and loading
  a path never written raises.
\<close>

type_synonym ('f, 's, 'e, 'h) files = "string \<rightharpoonup> ('f, 's, 'e, 'h) payload"

definition save ::
  "('f, 's, 'e, 'h, 'p) manager \<Rightarrow> string \<Rightarrow> ('f, 's, 'e, 'h) files \<Rightarrow> ('f, 's, 'e, 'h) files" where
  "save m path fs =
     fs(path \<mapsto> \<lparr>p_version = Some VERSION_HEADER,
                  p_encoder = Some (encoder m),
                  p_missing_handler = Some (missing_handler m)\<rparr>)"

text \<open>\<^verbatim>\<open>payload.get("version", 0)\<close>.\<close>

definition get_version :: "('f, 's, 'e, 'h) payload \<Rightarrow> int" where
  "get_version pl = (case p_version pl of None \<Rightarrow> 0 | Some v \<Rightarrow> v)"

text \<open>
  \<^verbatim>\<open>load\<close>, from the decoded payload on. The subscript \<^verbatim>\<open>payload["encoder"]\<close>
  comes before anything is constructed. The default of
  \<^verbatim>\<open>payload.get("missing_handler", MissingHandler())\<close> is an argument, so it is
  constructed whether or not the key is present. \<^verbatim>\<open>cls(name)\<close> passes the name
  only.
\<close>

definition load_payload ::
  "('f, 'h, 'p) collaborators \<Rightarrow> ('f, 's, 'e, 'h) payload \<Rightarrow> ('f, 's, 'e) process \<Rightarrow>
   (exn + ('f, 's, 'e, 'h, 'p) manager) \<times> ('f, 's, 'e) process" where
  "load_payload C pl P =
     (let version = get_version pl
      in (case p_encoder pl of
           None \<Rightarrow> (Inl (KeyError ''encoder''), P)
         | Some enc \<Rightarrow>
             (let dflt = MissingHandler C None;
                  P1 = P\<lparr>constructed := constructed P @ [Handler]\<rparr>;
                  mh = (case p_missing_handler pl of None \<Rightarrow> dflt | Some h \<Rightarrow> h)
              in (case init C (Some (str_lower C (cls_name (obj_class enc)))) None None [] P1 of
                    (Inl e, P2) \<Rightarrow> (Inl e, P2)
                  | (Inr manager, P2) \<Rightarrow>
                      (Inr (manager\<lparr>encoder := enc, missing_handler := mh\<rparr>), P2)))))"

definition load ::
  "('f, 'h, 'p) collaborators \<Rightarrow> string \<Rightarrow> ('f, 's, 'e, 'h) files \<Rightarrow> ('f, 's, 'e) process \<Rightarrow>
   (exn + ('f, 's, 'e, 'h, 'p) manager) \<times> ('f, 's, 'e) process" where
  "load C path fs P =
     (case fs path of
        None \<Rightarrow> (Inl (FileNotFoundError path), P)
      | Some pl \<Rightarrow> load_payload C pl P)"

section \<open>Test doubles\<close>

text \<open>
  Concrete collaborators, used only to run the definitions above on explicit
  inputs. A frame is one column of cells, a label series a list of integers.
\<close>

type_synonym frame = "pyval list"

type_synonym series = "int list"

text \<open>
  Lower-casing of ASCII text: \<open>A\<close> to \<open>Z\<close> become \<open>a\<close> to \<open>z\<close> and every other
  character stays. On ASCII text \<^verbatim>\<open>str.lower\<close> is this function.
\<close>

definition ascii_lower_char :: "char \<Rightarrow> char" where
  "ascii_lower_char c =
     (case map_of (zip ''ABCDEFGHIJKLMNOPQRSTUVWXYZ'' ''abcdefghijklmnopqrstuvwxyz'') c of
        None \<Rightarrow> c
      | Some d \<Rightarrow> d)"

definition ascii_lower :: "string \<Rightarrow> string" where
  "ascii_lower s = map ascii_lower_char s"

text \<open>
  A handler that remembers its sentinel and whether it has been fitted, and
  replaces every cell that is the sentinel. A profiler that keeps the list
  of scopes entered and left. An interpreter that is only given ASCII text
  to lower-case.
\<close>

definition prepare :: "pyval \<Rightarrow> frame \<Rightarrow> frame" where
  "prepare v X = map (\<lambda>c. if c = v then PyStr ''missing'' else c) X"

definition stub_collaborators :: "(frame, pyval \<times> bool, string list) collaborators" where
  "stub_collaborators =
     \<lparr>MissingHandler = (\<lambda>arg. (case arg of None \<Rightarrow> PyNaN | Some v \<Rightarrow> v, False)),
      mh_fit_transform = (\<lambda>h X. (Inr (prepare (fst h) X), (fst h, True))),
      mh_transform = (\<lambda>h X.
         if snd h then (Inr (prepare (fst h) X), h)
         else (Inl (Raised ''NotFittedError'' ''handler is not fitted''), h)),
      MemoryManager = [],
      profiler_truthy = (\<lambda>p. True),
      profile_enter = (\<lambda>label p. p @ [''enter '' @ label]),
      profile_exit = (\<lambda>label p. p @ [''exit '' @ label]),
      str_lower = ascii_lower\<rparr>"

text \<open>
  A strategy class of a given name. It takes no keyword arguments, learns the
  distinct cells at fit time and maps a cell to its position among them.
\<close>

definition stub_class :: "string \<Rightarrow> (frame, series, frame option) encoder_class" where
  "stub_class name =
     \<lparr>cls_name = name,
      cls_new = (\<lambda>kw. if kw = [] then Inr None
                       else Inl (Raised ''TypeError'' ''unexpected keyword argument'')),
      cls_fit = (\<lambda>st X y. (Inr (), Some (remdups X))),
      cls_transform = (\<lambda>st X.
         case st of
           None \<Rightarrow> (Inl (Raised ''NotFittedError'' ''encoder is not fitted''), st)
         | Some cats \<Rightarrow>
             (Inr (map (\<lambda>c. PyInt (int (length (takeWhile (\<lambda>d. d \<noteq> c) cats)))) X), st))\<rparr>"

text \<open>A class whose constructor and methods always raise.\<close>

definition broken_class :: "(frame, series, frame option) encoder_class" where
  "broken_class =
     \<lparr>cls_name = ''Broken'',
      cls_new = (\<lambda>kw. Inl (Raised ''RuntimeError'' ''cannot construct'')),
      cls_fit = (\<lambda>st X y. (Inl (Raised ''RuntimeError'' ''cannot fit''), st)),
      cls_transform = (\<lambda>st X. (Inl (Raised ''RuntimeError'' ''cannot transform''), st))\<rparr>"

text \<open>
  A process that has just imported the module: the registry of the class
  body, with the four imported classes under their own names, and nothing
  constructed yet.
\<close>

definition builtin_process :: "(frame, series, frame option) process" where
  "builtin_process =
     \<lparr>registry =
        builtin_registry (stub_class ''WOEGuard'') (stub_class ''TargetEncoder'')
          (stub_class ''LeaveOneOutEncoder'') (stub_class ''OneHotEncoder''),
      constructed = []\<rparr>"

text \<open>A process whose registry has no entry.\<close>

definition empty_process :: "(frame, series, frame option) process" where
  "empty_process = \<lparr>registry = Map.empty, constructed = []\<rparr>"

definition X0 :: frame where
  "X0 = [PyStr ''a'', PyStr ''b'', PyNaN, PyStr ''a'']"

definition y0 :: series where
  "y0 = [1, 0, 1, 0]"

text \<open>
  A strategy class wrapped so that its instances also keep the list of frames
  their \<^verbatim>\<open>fit\<close> and \<^verbatim>\<open>transform\<close> were called with, oldest first. The wrapped
  class behaves as the class itself.
\<close>

definition recording ::
  "('f, 's, 'e) encoder_class \<Rightarrow> ('f, 's, 'e \<times> 'f list) encoder_class" where
  "recording c =
     \<lparr>cls_name = cls_name c,
      cls_new = (\<lambda>kw. case cls_new c kw of Inl e \<Rightarrow> Inl e | Inr st \<Rightarrow> Inr (st, [])),
      cls_fit = (\<lambda>s X y. case cls_fit c (fst s) X y of (r, st) \<Rightarrow> (r, (st, snd s @ [X]))),
      cls_transform = (\<lambda>s X. case cls_transform c (fst s) X of (r, st) \<Rightarrow> (r, (st, snd s @ [X])))\<rparr>"

text \<open>The frames the strategy of a manager has been called with.\<close>

definition observed :: "('f, 's, 'e \<times> 'f list, 'h, 'p) manager \<Rightarrow> 'f list" where
  "observed m = snd (obj_state (encoder m))"

text \<open>
  What \<^verbatim>\<open>EncodingManager()\<close> builds in \<open>builtin_process\<close>, the strategy instance
  after fitting it on \<open>X0\<close> and \<open>y0\<close>, a payload written before the version
  and the handler were stored, a payload without the strategy, and a process
  in which the lower-cased name of \<^verbatim>\<open>OneHotEncoder\<close> has been registered too.
\<close>

definition onehot_manager ::
  "(frame, series, frame option, pyval \<times> bool, string list) manager" where
  "onehot_manager =
     \<lparr>encoder_cls = stub_class ''OneHotEncoder'',
      encoder = \<lparr>obj_class = stub_class ''OneHotEncoder'', obj_state = None\<rparr>,
      memory_manager = [],
      missing_handler = (PyNaN, False)\<rparr>"

definition fitted_encoder :: "(frame, series, frame option) encoder_obj" where
  "fitted_encoder =
     \<lparr>obj_class = stub_class ''OneHotEncoder'',
      obj_state = Some [PyStr ''b'', PyStr ''missing'', PyStr ''a'']\<rparr>"

definition legacy_payload :: "(frame, series, frame option, pyval \<times> bool) payload" where
  "legacy_payload =
     \<lparr>p_version = None, p_encoder = Some fitted_encoder, p_missing_handler = None\<rparr>"

definition headless_payload :: "(frame, series, frame option, pyval \<times> bool) payload" where
  "headless_payload =
     \<lparr>p_version = Some 1, p_encoder = None, p_missing_handler = Some (PyNaN, True)\<rparr>"

definition lowercase_process :: "(frame, series, frame option) process" where
  "lowercase_process =
     register ''onehotencoder'' (stub_class ''OneHotEncoder'') builtin_process"

text \<open>
  Collaborators whose handler cannot prepare any frame, and a manager whose
  strategy is an instance of \<open>broken_class\<close>.
\<close>

definition failing_collaborators :: "(frame, pyval \<times> bool, string list) collaborators" where
  "failing_collaborators =
     stub_collaborators
       \<lparr>mh_fit_transform := (\<lambda>h X. (Inl (Raised ''TypeError'' ''not a frame''), h))\<rparr>"

definition broken_manager ::
  "(frame, series, frame option, pyval \<times> bool, string list) manager" where
  "broken_manager =
     onehot_manager
       \<lparr>encoder_cls := broken_class,
        encoder := \<lparr>obj_class = broken_class, obj_state = None\<rparr>\<rparr>"

text \<open>
  A fresh manager whose strategy is a recording instance and whose handler has
  the sentinel \<^verbatim>\<open>None\<close>, and a column holding \<^verbatim>\<open>"a"\<close>, \<^verbatim>\<open>"b"\<close> and \<^verbatim>\<open>None\<close>.
\<close>

definition recording_manager ::
  "(frame, series, frame option \<times> frame list, pyval \<times> bool, string list) manager" where
  "recording_manager =
     \<lparr>encoder_cls = recording (stub_class ''OneHotStub''),
      encoder = \<lparr>obj_class = recording (stub_class ''OneHotStub''), obj_state = (None, [])\<rparr>,
      memory_manager = [],
      missing_handler = (PyNone, False)\<rparr>"

definition X1 :: frame where
  "X1 = [PyStr ''a'', PyStr ''b'', PyNone]"

definition y1 :: series where
  "y1 = [1, 0, 1]"

text \<open>
  A payload whose strategy is an instance of \<^verbatim>\<open>WOEGuard\<close>. A class whose name
  is not ASCII, \<^verbatim>\<open>E\<close> with an acute accent followed by \<^verbatim>\<open>NC\<close>, the name
  \<^verbatim>\<open>str.lower\<close> makes of it, an interpreter that lower-cases this name as Python
  does and ASCII text besides, a payload holding an instance of the class,
  and a process in which the class is registered under its lower-cased name.
\<close>

definition woe_payload :: "(frame, series, frame option, pyval \<times> bool) payload" where
  "woe_payload =
     \<lparr>p_version = Some 1,
      p_encoder = Some \<lparr>obj_class = stub_class ''WOEGuard'', obj_state = None\<rparr>,
      p_missing_handler = Some (PyNaN, False)\<rparr>"

definition accented_name :: string where
  "accented_name = [CHR 0xC3, CHR 0x89, CHR ''N'', CHR ''C'']"

definition accented_key :: string where
  "accented_key = [CHR 0xC3, CHR 0xA9, CHR ''n'', CHR ''c'']"

definition unicode_collaborators :: "(frame, pyval \<times> bool, string list) collaborators" where
  "unicode_collaborators =
     stub_collaborators
       \<lparr>str_lower := (\<lambda>s. if s = accented_name then accented_key else ascii_lower s)\<rparr>"

definition accented_payload :: "(frame, series, frame option, pyval \<times> bool) payload" where
  "accented_payload =
     \<lparr>p_version = Some 1,
      p_encoder = Some \<lparr>obj_class = stub_class accented_name, obj_state = None\<rparr>,
      p_missing_handler = Some (PyNaN, False)\<rparr>"

definition accented_process :: "(frame, series, frame option) process" where
  "accented_process = register accented_key (stub_class accented_name) builtin_process"

section \<open>Unfolding and evaluation\<close>

lemmas model_defs =
  load_def save_def load_payload_def init_def injected_def fit_def transform_def
  fit_transform_def enc_fit_def enc_transform_def get_version_def register_def Let_def

lemmas stub_defs =
  stub_collaborators_def stub_class_def builtin_process_def builtin_registry_def
  prepare_def X0_def y0_def ascii_lower_def ascii_lower_char_def

lemma init_builtin_default:
  "init stub_collaborators None None None [] builtin_process =
     (Inr onehot_manager,
      builtin_process\<lparr>constructed := [Strategy ''OneHotEncoder'', Profiler, Handler]\<rparr>)"
  by (simp add: model_defs stub_defs onehot_manager_def)

lemma fit_onehot_manager:
  "fit stub_collaborators onehot_manager X0 y0 =
     (Inr (), onehot_manager\<lparr>encoder := fitted_encoder,
                memory_manager := [''enter fit'', ''exit fit''],
                missing_handler := (PyNaN, True)\<rparr>)"
  by (simp add: model_defs stub_defs onehot_manager_def fitted_encoder_def)

lemma load_legacy_payload:
  "fst (load_payload stub_collaborators legacy_payload lowercase_process) =
     Inr (onehot_manager\<lparr>encoder := fitted_encoder\<rparr>)"
  by (simp add: model_defs stub_defs onehot_manager_def fitted_encoder_def legacy_payload_def lowercase_process_def)

section \<open>Construction\<close>

text \<open>
  C5. Constructing a manager under a name that is not in the registry fails
  with the \<^verbatim>\<open>ValueError\<close> for that name and constructs nothing: the process
  is as before. Under a name that is in the registry the constructor of the
  registered class is called with the forwarded keyword arguments. If it
  returns, construction succeeds: the strategy is that instance of the
  registered class, one handler is built with the sentinel and a profiler is
  retained or built. If it raises, construction fails with its exception.
\<close>

theorem init_registry_check:
  "(registry P name = None \<longrightarrow>
      init C (Some name) mm sv kw P = (Inl (not_registered name), P))
   \<and> (registry P name = Some cls \<longrightarrow> cls_new cls kw = Inl e \<longrightarrow>
      init C (Some name) mm sv kw P = (Inl e, P))
   \<and> (registry P name = Some cls \<longrightarrow> cls_new cls kw = Inr st \<longrightarrow>
      init C (Some name) mm sv kw P =
        (Inr \<lparr>encoder_cls = cls,
              encoder = \<lparr>obj_class = cls, obj_state = st\<rparr>,
              memory_manager = (case injected C mm of None \<Rightarrow> MemoryManager C | Some p \<Rightarrow> p),
              missing_handler =
                MissingHandler C (Some (case sv of None \<Rightarrow> PyNaN | Some v \<Rightarrow> v))\<rparr>,
         P\<lparr>constructed :=
             constructed P @ [Strategy (cls_name cls)]
               @ (case injected C mm of None \<Rightarrow> [Profiler] | Some p \<Rightarrow> []) @ [Handler]\<rparr>))"
proof (intro conjI impI)
  assume "registry P name = None"
  then show "init C (Some name) mm sv kw P = (Inl (not_registered name), P)"
    by (simp add: init_def)
next
  assume "registry P name = Some cls" and "cls_new cls kw = Inl e"
  then show "init C (Some name) mm sv kw P = (Inl e, P)"
    by (simp add: init_def)
next
  assume reg: "registry P name = Some cls" and new: "cls_new cls kw = Inr st"
  show "init C (Some name) mm sv kw P =
        (Inr \<lparr>encoder_cls = cls,
              encoder = \<lparr>obj_class = cls, obj_state = st\<rparr>,
              memory_manager = (case injected C mm of None \<Rightarrow> MemoryManager C | Some p \<Rightarrow> p),
              missing_handler =
                MissingHandler C (Some (case sv of None \<Rightarrow> PyNaN | Some v \<Rightarrow> v))\<rparr>,
         P\<lparr>constructed :=
             constructed P @ [Strategy (cls_name cls)]
               @ (case injected C mm of None \<Rightarrow> [Profiler] | Some p \<Rightarrow> []) @ [Handler]\<rparr>)"
  proof (cases "injected C mm")
    case None
    with reg new show ?thesis by (simp add: init_def Let_def)
  next
    case (Some p)
    with reg new show ?thesis by (simp add: init_def Let_def)
  qed
qed

theorem init_registry_check_witness:
  "registry builtin_process ''nope'' = None
   \<and> init stub_collaborators (Some ''nope'') None None [] builtin_process =
       (Inl (ValueError ''Encoding 'nope' not registered''), builtin_process)
   \<and> registry builtin_process ''woe'' = Some (stub_class ''WOEGuard'')
   \<and> cls_new (stub_class ''WOEGuard'') [(''smoothing'', PyInt 1)] =
       Inl (Raised ''TypeError'' ''unexpected keyword argument'')
   \<and> init stub_collaborators (Some ''woe'') None None [(''smoothing'', PyInt 1)] builtin_process =
       (Inl (Raised ''TypeError'' ''unexpected keyword argument''), builtin_process)
   \<and> cls_new (stub_class ''WOEGuard'') [] = Inr None
   \<and> init stub_collaborators (Some ''woe'') None (Some PyNone) [] builtin_process =
       (Inr \<lparr>encoder_cls = stub_class ''WOEGuard'',
             encoder = \<lparr>obj_class = stub_class ''WOEGuard'', obj_state = None\<rparr>,
             memory_manager = [],
             missing_handler = (PyNone, False)\<rparr>,
        builtin_process\<lparr>constructed := [Strategy ''WOEGuard'', Profiler, Handler]\<rparr>)"
proof -
  have absent: "registry builtin_process ''nope'' = None"
    by (simp add: builtin_process_def builtin_registry_def)
  have present: "registry builtin_process ''woe'' = Some (stub_class ''WOEGuard'')"
    by (simp add: builtin_process_def builtin_registry_def)
  have raises: "cls_new (stub_class ''WOEGuard'') [(''smoothing'', PyInt 1)] =
      Inl (Raised ''TypeError'' ''unexpected keyword argument'')"
    by (simp add: stub_class_def)
  have returns: "cls_new (stub_class ''WOEGuard'') [] = Inr None"
    by (simp add: stub_class_def)
  have msg: "not_registered ''nope'' = ValueError ''Encoding 'nope' not registered''"
    by (simp add: not_registered_def)
  have a: "init stub_collaborators (Some ''nope'') None None [] builtin_process =
       (Inl (ValueError ''Encoding 'nope' not registered''), builtin_process)"
    using init_registry_check [where P = builtin_process and name = "''nope''"
        and C = stub_collaborators and mm = None and sv = None and kw = "[]"] absent
    unfolding msg by blast
  have b: "init stub_collaborators (Some ''woe'') None None [(''smoothing'', PyInt 1)] builtin_process =
       (Inl (Raised ''TypeError'' ''unexpected keyword argument''), builtin_process)"
    using init_registry_check [where P = builtin_process and name = "''woe''"
        and C = stub_collaborators and mm = None and sv = None
        and kw = "[(''smoothing'', PyInt 1)]" and cls = "stub_class ''WOEGuard''"
        and e = "Raised ''TypeError'' ''unexpected keyword argument''"] present raises
    by blast
  have c: "init stub_collaborators (Some ''woe'') None (Some PyNone) [] builtin_process =
       (Inr \<lparr>encoder_cls = stub_class ''WOEGuard'',
             encoder = \<lparr>obj_class = stub_class ''WOEGuard'', obj_state = None\<rparr>,
             memory_manager = [],
             missing_handler = (PyNone, False)\<rparr>,
        builtin_process\<lparr>constructed := [Strategy ''WOEGuard'', Profiler, Handler]\<rparr>)"
    using init_registry_check [where P = builtin_process and name = "''woe''"
        and C = stub_collaborators and mm = None and sv = "Some PyNone"
        and kw = "[]" and cls = "stub_class ''WOEGuard''" and st = None] present returns
    by (simp add: injected_def stub_collaborators_def builtin_process_def stub_class_def)
  show ?thesis
    using absent present raises returns a b c by blast
qed

theorem registered_constructor_may_raise:
  "registry (register ''broken'' broken_class builtin_process) ''broken'' = Some broken_class
   \<and> fst (init stub_collaborators (Some ''broken'') None None []
            (register ''broken'' broken_class builtin_process))
       = Inl (Raised ''RuntimeError'' ''cannot construct'')"
  by (simp add: init_def register_def broken_class_def)

text \<open>
  C10. The default scheme name is \<^verbatim>\<open>"onehot"\<close>: constructing with no encoding
  argument is constructing with \<^verbatim>\<open>encoding="onehot"\<close>. It fails with the
  \<^verbatim>\<open>ValueError\<close> for \<^verbatim>\<open>"onehot"\<close> when that name is not registered. When it is
  and the constructor of the class registered under it returns, the strategy
  is that instance of that class; when the constructor raises, construction
  fails with its exception.
\<close>

theorem default_scheme_is_onehot:
  "init C None mm sv kw P = init C (Some ''onehot'') mm sv kw P
   \<and> (registry P ''onehot'' = None \<longrightarrow>
        fst (init C None mm sv kw P) = Inl (not_registered ''onehot''))
   \<and> (registry P ''onehot'' = Some cls \<longrightarrow> cls_new cls kw = Inr st \<longrightarrow>
        (\<exists>m. fst (init C None mm sv kw P) = Inr m
           \<and> encoder_cls m = cls \<and> encoder m = \<lparr>obj_class = cls, obj_state = st\<rparr>))
   \<and> (registry P ''onehot'' = Some cls \<longrightarrow> cls_new cls kw = Inl e \<longrightarrow>
        fst (init C None mm sv kw P) = Inl e)"
proof -
  have same: "init C None mm sv kw P = init C (Some ''onehot'') mm sv kw P"
    by (simp add: init_def)
  have absent: "fst (init C (Some ''onehot'') mm sv kw P) = Inl (not_registered ''onehot'')"
    if "registry P ''onehot'' = None"
    using that by (simp add: init_def)
  have built: "\<exists>m. fst (init C (Some ''onehot'') mm sv kw P) = Inr m
           \<and> encoder_cls m = cls \<and> encoder m = \<lparr>obj_class = cls, obj_state = st\<rparr>"
    if "registry P ''onehot'' = Some cls" and "cls_new cls kw = Inr st"
    using that by (cases "injected C mm") (simp_all add: init_def Let_def)
  have raised: "fst (init C (Some ''onehot'') mm sv kw P) = Inl e"
    if "registry P ''onehot'' = Some cls" and "cls_new cls kw = Inl e"
    using that by (simp add: init_def)
  show ?thesis
    unfolding same using absent built raised by blast
qed

theorem default_scheme_is_onehot_witness:
  "init stub_collaborators None None None [] builtin_process =
     init stub_collaborators (Some ''onehot'') None None [] builtin_process
   \<and> registry builtin_process ''onehot'' = Some (stub_class ''OneHotEncoder'')
   \<and> cls_new (stub_class ''OneHotEncoder'') [] = Inr None
   \<and> (\<exists>m. fst (init stub_collaborators None None None [] builtin_process) = Inr m
          \<and> encoder_cls m = stub_class ''OneHotEncoder''
          \<and> encoder m = \<lparr>obj_class = stub_class ''OneHotEncoder'', obj_state = None\<rparr>)
   \<and> cls_new (stub_class ''OneHotEncoder'') [(''drop'', PyStr ''first'')] =
       Inl (Raised ''TypeError'' ''unexpected keyword argument'')
   \<and> fst (init stub_collaborators None None None [(''drop'', PyStr ''first'')] builtin_process) =
       Inl (Raised ''TypeError'' ''unexpected keyword argument'')
   \<and> registry empty_process ''onehot'' = None
   \<and> fst (init stub_collaborators None None None [] empty_process) =
       Inl (ValueError ''Encoding 'onehot' not registered'')"
proof -
  have present: "registry builtin_process ''onehot'' = Some (stub_class ''OneHotEncoder'')"
    by (simp add: builtin_process_def builtin_registry_def)
  have returns: "cls_new (stub_class ''OneHotEncoder'') [] = Inr None"
    by (simp add: stub_class_def)
  have raises: "cls_new (stub_class ''OneHotEncoder'') [(''drop'', PyStr ''first'')] =
       Inl (Raised ''TypeError'' ''unexpected keyword argument'')"
    by (simp add: stub_class_def)
  have absent: "registry empty_process ''onehot'' = None"
    by (simp add: empty_process_def)
  have msg: "not_registered ''onehot'' = ValueError ''Encoding 'onehot' not registered''"
    by (simp add: not_registered_def)
  note inst = default_scheme_is_onehot [where C = stub_collaborators and mm = None and sv = None
      and cls = "stub_class ''OneHotEncoder''"]
  have a: "init stub_collaborators None None None [] builtin_process =
     init stub_collaborators (Some ''onehot'') None None [] builtin_process"
    using inst [where P = builtin_process and kw = "[]"] by blast
  have b: "\<exists>m. fst (init stub_collaborators None None None [] builtin_process) = Inr m
          \<and> encoder_cls m = stub_class ''OneHotEncoder''
          \<and> encoder m = \<lparr>obj_class = stub_class ''OneHotEncoder'', obj_state = None\<rparr>"
    using inst [where P = builtin_process and kw = "[]" and st = None] present returns by blast
  have c: "fst (init stub_collaborators None None None [(''drop'', PyStr ''first'')] builtin_process) =
       Inl (Raised ''TypeError'' ''unexpected keyword argument'')"
    using inst [where P = builtin_process and kw = "[(''drop'', PyStr ''first'')]"
        and e = "Raised ''TypeError'' ''unexpected keyword argument''"] present raises by blast
  have d: "fst (init stub_collaborators None None None [] empty_process) =
       Inl (ValueError ''Encoding 'onehot' not registered'')"
    using inst [where P = empty_process and kw = "[]" and st = None
        and e = "Raised ''TypeError'' ''unexpected keyword argument''"] absent
    unfolding msg by blast
  show ?thesis
    using present returns raises absent a b c d by blast
qed

theorem default_scheme_constructor_may_raise:
  "registry (register ''onehot'' broken_class builtin_process) ''onehot'' = Some broken_class
   \<and> fst (init stub_collaborators None None None []
            (register ''onehot'' broken_class builtin_process))
       = Inl (Raised ''RuntimeError'' ''cannot construct'')"
  by (simp add: init_def register_def broken_class_def)

section \<open>Loading\<close>

text \<open>
  C9. The \<^verbatim>\<open>encoder\<close> key of the payload is mandatory: loading a payload
  without it raises \<^verbatim>\<open>KeyError\<close> for that key, whatever the other two keys
  hold, and nothing is constructed. The \<^verbatim>\<open>version\<close> and \<^verbatim>\<open>missing_handler\<close> keys
  are optional: a payload with the strategy and without them loads exactly as
  the payload that holds version 0 and a default handler.
\<close>

theorem load_requires_encoder_key:
  "(fs path = Some pl \<longrightarrow> p_encoder pl = None \<longrightarrow>
      load C path fs P = (Inl (KeyError ''encoder''), P))
   \<and> load_payload C (pl\<lparr>p_version := None, p_missing_handler := None\<rparr>) P =
      load_payload C (pl\<lparr>p_version := Some 0,
                          p_missing_handler := Some (MissingHandler C None)\<rparr>) P"
proof (intro conjI impI)
  assume "fs path = Some pl" and "p_encoder pl = None"
  then show "load C path fs P = (Inl (KeyError ''encoder''), P)"
    by (simp add: load_def load_payload_def)
next
  show "load_payload C (pl\<lparr>p_version := None, p_missing_handler := None\<rparr>) P =
      load_payload C (pl\<lparr>p_version := Some 0,
                          p_missing_handler := Some (MissingHandler C None)\<rparr>) P"
    by (cases "p_encoder pl") (simp_all add: load_payload_def)
qed

theorem load_requires_encoder_key_witness:
  "[''enc.joblib'' \<mapsto> headless_payload] ''enc.joblib'' = Some headless_payload
   \<and> p_encoder headless_payload = None
   \<and> load stub_collaborators ''enc.joblib'' [''enc.joblib'' \<mapsto> headless_payload] builtin_process
       = (Inl (KeyError ''encoder''), builtin_process)
   \<and> load_payload stub_collaborators
        (legacy_payload\<lparr>p_version := None, p_missing_handler := None\<rparr>) lowercase_process =
      load_payload stub_collaborators
        (legacy_payload\<lparr>p_version := Some 0,
           p_missing_handler := Some (MissingHandler stub_collaborators None)\<rparr>) lowercase_process"
  using load_requires_encoder_key [of "[''enc.joblib'' \<mapsto> headless_payload]" "''enc.joblib''"
      headless_payload stub_collaborators builtin_process]
    load_requires_encoder_key [of _ _ legacy_payload stub_collaborators lowercase_process]
  by (simp add: headless_payload_def legacy_payload_def)

text \<open>
  C2. On load the scheme name is the lower-cased type name of the decoded
  strategy, \<^verbatim>\<open>enc.__class__.__name__.lower()\<close>, and that name is the key looked up
  in the registry. When it is not a key, load fails with the error that
  constructing a manager under that name fails with, whatever the other
  constructor arguments are. When it is a key and load returns a manager, the
  manager's strategy type is the class registered under it. No other entry of
  the registry matters: in two processes that agree on this key, load has the
  same outcome.
\<close>

theorem load_infers_scheme_name:
  assumes "p_encoder pl = Some enc"
  shows "(registry P (str_lower C (cls_name (obj_class enc))) = None \<longrightarrow>
            fst (load_payload C pl P) =
              Inl (not_registered (str_lower C (cls_name (obj_class enc))))
          \<and> fst (load_payload C pl P) =
              fst (init C (Some (str_lower C (cls_name (obj_class enc)))) mm sv kw P))
       \<and> (registry P (str_lower C (cls_name (obj_class enc))) = Some cls \<longrightarrow>
            fst (load_payload C pl P) = Inr m \<longrightarrow>
            encoder_cls m = cls \<and> encoder m = enc)
       \<and> (registry P_other (str_lower C (cls_name (obj_class enc))) =
            registry P (str_lower C (cls_name (obj_class enc))) \<longrightarrow>
            fst (load_payload C pl P_other) = fst (load_payload C pl P))"
proof (intro conjI impI)
  let ?key = "str_lower C (cls_name (obj_class enc))"
  assume absent: "registry P ?key = None"
  from assms absent show "fst (load_payload C pl P) = Inl (not_registered ?key)"
    by (simp add: load_payload_def init_def)
  from assms absent show "fst (load_payload C pl P) = fst (init C (Some ?key) mm sv kw P)"
    by (simp add: load_payload_def init_def)
next
  let ?key = "str_lower C (cls_name (obj_class enc))"
  assume present: "registry P ?key = Some cls" and loaded: "fst (load_payload C pl P) = Inr m"
  show "encoder_cls m = cls"
  proof (cases "cls_new cls []")
    case (Inl e)
    with assms present loaded show ?thesis
      by (simp add: load_payload_def init_def)
  next
    case (Inr st)
    with assms present loaded show ?thesis
      by (auto simp: load_payload_def init_def Let_def split: option.splits prod.splits)
  qed
  show "encoder m = enc"
  proof (cases "cls_new cls []")
    case (Inl e)
    with assms present loaded show ?thesis
      by (simp add: load_payload_def init_def)
  next
    case (Inr st)
    with assms present loaded show ?thesis
      by (auto simp: load_payload_def init_def Let_def split: option.splits prod.splits)
  qed
next
  let ?key = "str_lower C (cls_name (obj_class enc))"
  assume same: "registry P_other ?key = registry P ?key"
  show "fst (load_payload C pl P_other) = fst (load_payload C pl P)"
  proof (cases "registry P ?key")
    case None
    with assms same show ?thesis
      by (simp add: load_payload_def init_def)
  next
    case (Some cls)
    with assms same show ?thesis
      by (cases "cls_new cls []")
         (auto simp: load_payload_def init_def Let_def split: option.splits prod.splits)
  qed
qed

theorem load_infers_scheme_name_witness:
  "p_encoder legacy_payload = Some fitted_encoder
   \<and> str_lower stub_collaborators (cls_name (obj_class fitted_encoder)) = ''onehotencoder''
   \<and> registry builtin_process ''onehotencoder'' = None
   \<and> fst (load_payload stub_collaborators legacy_payload builtin_process) =
       Inl (ValueError ''Encoding 'onehotencoder' not registered'')
   \<and> fst (load_payload stub_collaborators legacy_payload builtin_process) =
       fst (init stub_collaborators (Some ''onehotencoder'') None None [] builtin_process)
   \<and> registry lowercase_process ''onehotencoder'' = Some (stub_class ''OneHotEncoder'')
   \<and> (\<exists>m. fst (load_payload stub_collaborators legacy_payload lowercase_process) = Inr m
          \<and> encoder_cls m = stub_class ''OneHotEncoder'' \<and> encoder m = fitted_encoder)
   \<and> registry (register ''woe'' broken_class lowercase_process) ''onehotencoder'' =
       registry lowercase_process ''onehotencoder''
   \<and> fst (load_payload stub_collaborators legacy_payload
            (register ''woe'' broken_class lowercase_process)) =
       fst (load_payload stub_collaborators legacy_payload lowercase_process)
   \<and> fst (load_payload stub_collaborators woe_payload lowercase_process) =
       Inl (ValueError ''Encoding 'woeguard' not registered'')
   \<and> str_lower unicode_collaborators accented_name = accented_key
   \<and> fst (load_payload unicode_collaborators accented_payload builtin_process) =
       Inl (not_registered accented_key)
   \<and> (\<exists>m. fst (load_payload unicode_collaborators accented_payload accented_process) = Inr m
          \<and> encoder_cls m = stub_class accented_name)"
proof -
  have enc: "p_encoder legacy_payload = Some fitted_encoder"
    by (simp add: legacy_payload_def)
  have name: "str_lower stub_collaborators (cls_name (obj_class fitted_encoder)) = ''onehotencoder''"
    by (simp add: fitted_encoder_def stub_class_def stub_collaborators_def
          ascii_lower_def ascii_lower_char_def)
  have absent: "registry builtin_process ''onehotencoder'' = None"
    by (simp add: builtin_process_def builtin_registry_def)
  have present: "registry lowercase_process ''onehotencoder'' = Some (stub_class ''OneHotEncoder'')"
    by (simp add: lowercase_process_def register_def)
  have other: "registry (register ''woe'' broken_class lowercase_process) ''onehotencoder'' =
       registry lowercase_process ''onehotencoder''"
    by (simp add: register_def)
  have fails:
    "fst (load_payload stub_collaborators legacy_payload builtin_process) =
       Inl (not_registered ''onehotencoder'')
     \<and> fst (load_payload stub_collaborators legacy_payload builtin_process) =
       fst (init stub_collaborators (Some ''onehotencoder'') None None [] builtin_process)"
    using load_infers_scheme_name [OF enc, where P = builtin_process
        and C = stub_collaborators and mm = None and sv = None and kw = "[]"] absent
    unfolding name by blast
  have loads:
    "encoder_cls (onehot_manager\<lparr>encoder := fitted_encoder\<rparr>) = stub_class ''OneHotEncoder''
     \<and> encoder (onehot_manager\<lparr>encoder := fitted_encoder\<rparr>) = fitted_encoder"
    using load_infers_scheme_name [OF enc, where P = lowercase_process
        and C = stub_collaborators and cls = "stub_class ''OneHotEncoder''"
        and m = "onehot_manager\<lparr>encoder := fitted_encoder\<rparr>"] present load_legacy_payload
    unfolding name by blast
  have framed: "fst (load_payload stub_collaborators legacy_payload
            (register ''woe'' broken_class lowercase_process)) =
       fst (load_payload stub_collaborators legacy_payload lowercase_process)"
    using load_infers_scheme_name [OF enc, where P = lowercase_process
        and C = stub_collaborators
        and P_other = "register ''woe'' broken_class lowercase_process"] other
    unfolding name by blast
  have woe_enc: "p_encoder woe_payload =
      Some \<lparr>obj_class = stub_class ''WOEGuard'', obj_state = None\<rparr>"
    by (simp add: woe_payload_def)
  have woe_name: "str_lower stub_collaborators
      (cls_name (obj_class \<lparr>obj_class = stub_class ''WOEGuard'', obj_state = None\<rparr>)) = ''woeguard''"
    by (simp add: stub_class_def stub_collaborators_def ascii_lower_def ascii_lower_char_def)
  have woe_absent: "registry lowercase_process ''woeguard'' = None"
    by (simp add: lowercase_process_def register_def builtin_process_def builtin_registry_def)
  have woe_fails: "fst (load_payload stub_collaborators woe_payload lowercase_process) =
       Inl (not_registered ''woeguard'')"
    using load_infers_scheme_name [OF woe_enc, where P = lowercase_process
        and C = stub_collaborators and mm = None and sv = None and kw = "[]"] woe_absent
    unfolding woe_name by blast
  have acc_enc: "p_encoder accented_payload =
      Some \<lparr>obj_class = stub_class accented_name, obj_state = None\<rparr>"
    by (simp add: accented_payload_def)
  have acc_name: "str_lower unicode_collaborators
      (cls_name (obj_class \<lparr>obj_class = stub_class accented_name, obj_state = None\<rparr>)) =
      accented_key"
    by (simp add: stub_class_def unicode_collaborators_def)
  have acc_lower: "str_lower unicode_collaborators accented_name = accented_key"
    by (simp add: unicode_collaborators_def)
  have acc_absent: "registry builtin_process accented_key = None"
    by (simp add: builtin_process_def builtin_registry_def accented_key_def)
  have acc_present: "registry accented_process accented_key = Some (stub_class accented_name)"
    by (simp add: accented_process_def register_def)
  have acc_fails: "fst (load_payload unicode_collaborators accented_payload builtin_process) =
       Inl (not_registered accented_key)"
    using load_infers_scheme_name [OF acc_enc, where P = builtin_process
        and C = unicode_collaborators and mm = None and sv = None and kw = "[]"] acc_absent
    unfolding acc_name by blast
  obtain loaded where acc_loaded:
    "fst (load_payload unicode_collaborators accented_payload accented_process) = Inr loaded"
    by (simp add: load_payload_def init_def injected_def get_version_def Let_def
          accented_payload_def accented_process_def register_def unicode_collaborators_def
          stub_collaborators_def stub_class_def)
  have acc_loads: "encoder_cls loaded = stub_class accented_name"
    using load_infers_scheme_name [OF acc_enc, where P = accented_process
        and C = unicode_collaborators and cls = "stub_class accented_name" and m = loaded]
      acc_present acc_loaded
    unfolding acc_name by blast
  have msg: "not_registered ''onehotencoder'' = ValueError ''Encoding 'onehotencoder' not registered''"
    "not_registered ''woeguard'' = ValueError ''Encoding 'woeguard' not registered''"
    by (simp_all add: not_registered_def)
  have ex: "\<exists>m. fst (load_payload stub_collaborators legacy_payload lowercase_process) = Inr m
      \<and> encoder_cls m = stub_class ''OneHotEncoder'' \<and> encoder m = fitted_encoder"
    using load_legacy_payload loads by blast
  have acc_ex: "\<exists>m. fst (load_payload unicode_collaborators accented_payload accented_process) = Inr m
      \<and> encoder_cls m = stub_class accented_name"
    using acc_loaded acc_loads by blast
  show ?thesis
    using enc name absent present other fails framed woe_fails acc_lower acc_fails ex acc_ex
    unfolding msg by blast
qed

text \<open>
  C6. A payload without the \<^verbatim>\<open>version\<close> key is read as version 0, and the
  version never changes what load does. Whenever load returns a manager, its
  strategy is the decoded one and its handler is the decoded one, or a
  default \<^verbatim>\<open>MissingHandler()\<close> when the payload has no \<^verbatim>\<open>missing_handler\<close> key:
  the manager is the placeholder built under the inferred name with both
  attributes overwritten.
\<close>

theorem load_defaults_and_overwrite:
  "(p_version pl = None \<longrightarrow> get_version pl = 0)
   \<and> load_payload C (pl\<lparr>p_version := v\<rparr>) P = load_payload C pl P
   \<and> (p_encoder pl = Some enc \<longrightarrow> load_payload C pl P = (Inr m, P') \<longrightarrow>
        encoder m = enc
      \<and> missing_handler m =
          (case p_missing_handler pl of None \<Rightarrow> MissingHandler C None | Some h \<Rightarrow> h)
      \<and> (\<exists>placeholder.
            init C (Some (str_lower C (cls_name (obj_class enc)))) None None []
              (P\<lparr>constructed := constructed P @ [Handler]\<rparr>) = (Inr placeholder, P')
          \<and> m = placeholder\<lparr>encoder := enc,
                 missing_handler :=
                   (case p_missing_handler pl of None \<Rightarrow> MissingHandler C None | Some h \<Rightarrow> h)\<rparr>))"
proof (intro conjI impI)
  assume "p_version pl = None"
  then show "get_version pl = 0"
    by (simp add: get_version_def)
next
  show "load_payload C (pl\<lparr>p_version := v\<rparr>) P = load_payload C pl P"
    by (cases "p_encoder pl") (simp_all add: load_payload_def)
next
  assume enc: "p_encoder pl = Some enc" and loaded: "load_payload C pl P = (Inr m, P')"
  let ?mh = "case p_missing_handler pl of None \<Rightarrow> MissingHandler C None | Some h \<Rightarrow> h"
  obtain r P2 where built:
    "init C (Some (str_lower C (cls_name (obj_class enc)))) None None []
       (P\<lparr>constructed := constructed P @ [Handler]\<rparr>) = (r, P2)"
    by (cases "init C (Some (str_lower C (cls_name (obj_class enc)))) None None []
       (P\<lparr>constructed := constructed P @ [Handler]\<rparr>)") blast
  from enc loaded built obtain placeholder where
    r: "r = Inr placeholder" and P2: "P2 = P'"
    and m: "m = placeholder\<lparr>encoder := enc, missing_handler := ?mh\<rparr>"
    by (cases r) (auto simp: load_payload_def Let_def)
  from m show "encoder m = enc" by simp
  from m show "missing_handler m = ?mh" by simp
  from built r P2 m show "\<exists>placeholder.
      init C (Some (str_lower C (cls_name (obj_class enc)))) None None []
        (P\<lparr>constructed := constructed P @ [Handler]\<rparr>) = (Inr placeholder, P')
      \<and> m = placeholder\<lparr>encoder := enc, missing_handler := ?mh\<rparr>"
    by blast
qed

theorem load_defaults_and_overwrite_witness:
  "p_version legacy_payload = None \<and> get_version legacy_payload = 0
   \<and> p_missing_handler legacy_payload = None
   \<and> p_encoder legacy_payload = Some fitted_encoder
   \<and> (\<exists>m P'. load_payload stub_collaborators legacy_payload lowercase_process = (Inr m, P')
          \<and> encoder m = fitted_encoder
          \<and> missing_handler m = MissingHandler stub_collaborators None
          \<and> constructed P' = [Handler, Strategy ''OneHotEncoder'', Profiler, Handler])"
proof -
  obtain m P' where L: "load_payload stub_collaborators legacy_payload lowercase_process = (Inr m, P')"
    and K: "constructed P' = [Handler, Strategy ''OneHotEncoder'', Profiler, Handler]"
    by (simp add: model_defs stub_defs fitted_encoder_def legacy_payload_def lowercase_process_def)
  have V: "p_version legacy_payload = None" "p_missing_handler legacy_payload = None"
    "p_encoder legacy_payload = Some fitted_encoder"
    by (simp_all add: legacy_payload_def)
  from load_defaults_and_overwrite [where pl = legacy_payload and C = stub_collaborators
      and P = lowercase_process and enc = fitted_encoder and m = m and P' = P'] L K V
  show ?thesis by simp
qed

section \<open>Fitting and transforming\<close>

text \<open>
  What \<^verbatim>\<open>fit\<close> and \<^verbatim>\<open>transform\<close> return, by what the handler and then the strategy
  return, and when the three operations raise.
\<close>

lemma fit_handler_raises:
  assumes "mh_fit_transform C (missing_handler m) X = (Inl e, h)"
  shows "fit C m X y = (Inl e, m\<lparr>missing_handler := h\<rparr>)"
  using assms by (simp add: fit_def)

lemma fit_handler_returns:
  assumes "mh_fit_transform C (missing_handler m) X = (Inr X_prep, h)"
    and "cls_fit (obj_class (encoder m)) (obj_state (encoder m)) X_prep y = (r, st)"
  shows "fit C m X y =
           (r, m\<lparr>encoder := (encoder m)\<lparr>obj_state := st\<rparr>,
                 memory_manager :=
                   profile_exit C ''fit'' (profile_enter C ''fit'' (memory_manager m)),
                 missing_handler := h\<rparr>)"
  using assms by (simp add: fit_def enc_fit_def)

lemma transform_handler_raises:
  assumes "mh_transform C (missing_handler m) X = (Inl e, h)"
  shows "transform C m X = (Inl e, m\<lparr>missing_handler := h\<rparr>)"
  using assms by (simp add: transform_def)

lemma transform_handler_returns:
  assumes "mh_transform C (missing_handler m) X = (Inr X_prep, h)"
    and "cls_transform (obj_class (encoder m)) (obj_state (encoder m)) X_prep = (r, st)"
  shows "transform C m X =
           (r, m\<lparr>encoder := (encoder m)\<lparr>obj_state := st\<rparr>,
                 memory_manager :=
                   profile_exit C ''transform''
                     (profile_enter C ''transform'' (memory_manager m)),
                 missing_handler := h\<rparr>)"
  using assms by (simp add: transform_def enc_transform_def)

lemma fit_transform_after_fit:
  "fit_transform C m X y =
     (case fit C m X y of (Inl e, m1) \<Rightarrow> (Inl e, m1) | (Inr u, m1) \<Rightarrow> transform C m1 X)"
  by (simp add: fit_transform_def)

lemma fit_raises_iff:
  "fst (fit C m X y) = Inl e \<longleftrightarrow>
      fst (mh_fit_transform C (missing_handler m) X) = Inl e
    \<or> (\<exists>X_prep. fst (mh_fit_transform C (missing_handler m) X) = Inr X_prep
         \<and> fst (cls_fit (obj_class (encoder m)) (obj_state (encoder m)) X_prep y) = Inl e)"
proof (cases "mh_fit_transform C (missing_handler m) X")
  case (Pair r h)
  show ?thesis
  proof (cases r)
    case (Inl e')
    with Pair show ?thesis
      by (simp add: fit_handler_raises)
  next
    case (Inr X_prep)
    obtain r' st where "cls_fit (obj_class (encoder m)) (obj_state (encoder m)) X_prep y = (r', st)"
      by (cases "cls_fit (obj_class (encoder m)) (obj_state (encoder m)) X_prep y") blast
    with Pair Inr show ?thesis
      by (simp add: fit_handler_returns)
  qed
qed

lemma transform_raises_iff:
  "fst (transform C m X) = Inl e \<longleftrightarrow>
      fst (mh_transform C (missing_handler m) X) = Inl e
    \<or> (\<exists>X_prep. fst (mh_transform C (missing_handler m) X) = Inr X_prep
         \<and> fst (cls_transform (obj_class (encoder m)) (obj_state (encoder m)) X_prep) = Inl e)"
proof (cases "mh_transform C (missing_handler m) X")
  case (Pair r h)
  show ?thesis
  proof (cases r)
    case (Inl e')
    with Pair show ?thesis
      by (simp add: transform_handler_raises)
  next
    case (Inr X_prep)
    obtain r' st where "cls_transform (obj_class (encoder m)) (obj_state (encoder m)) X_prep = (r', st)"
      by (cases "cls_transform (obj_class (encoder m)) (obj_state (encoder m)) X_prep") blast
    with Pair Inr show ?thesis
      by (simp add: transform_handler_returns)
  qed
qed

lemma fit_transform_raises_iff:
  "fst (fit_transform C m X y) = Inl e \<longleftrightarrow>
      fst (fit C m X y) = Inl e
    \<or> (fst (fit C m X y) = Inr () \<and> fst (transform C (snd (fit C m X y)) X) = Inl e)"
proof (cases "fit C m X y")
  case (Pair r m1)
  then show ?thesis
    by (cases r) (simp_all add: fit_transform_after_fit)
qed

text \<open>
  C3. \<^verbatim>\<open>fit_transform(X, y)\<close> is \<^verbatim>\<open>fit(X, y)\<close> followed by \<^verbatim>\<open>transform(X)\<close> on the
  manager as \<^verbatim>\<open>fit\<close> left it: same outcome, same manager afterwards. The
  \<^verbatim>\<open>transform\<close> is given the original \<open>X\<close>, so the handler prepares \<open>X\<close> twice,
  once by its \<^verbatim>\<open>fit_transform\<close> and once by its \<^verbatim>\<open>transform\<close>, and the output is
  what the fitted strategy makes of the second prepared frame.
\<close>

theorem fit_transform_is_fit_then_transform:
  "fit_transform C m X y =
     (case fit C m X y of (Inl e, m1) \<Rightarrow> (Inl e, m1) | (Inr u, m1) \<Rightarrow> transform C m1 X)
   \<and> (fst (fit C m X y) = Inr () \<longrightarrow>
        fit_transform C m X y = transform C (snd (fit C m X y)) X)
   \<and> (mh_fit_transform C (missing_handler m) X = (Inr X_prep, h_fit) \<longrightarrow>
      cls_fit (obj_class (encoder m)) (obj_state (encoder m)) X_prep y = (Inr (), st_fit) \<longrightarrow>
      mh_transform C h_fit X = (Inr X_again, h_again) \<longrightarrow>
        fst (fit_transform C m X y) = fst (cls_transform (obj_class (encoder m)) st_fit X_again))"
proof (intro conjI impI)
  show "fit_transform C m X y =
     (case fit C m X y of (Inl e, m1) \<Rightarrow> (Inl e, m1) | (Inr u, m1) \<Rightarrow> transform C m1 X)"
    by (rule fit_transform_after_fit)
next
  assume "fst (fit C m X y) = Inr ()"
  then show "fit_transform C m X y = transform C (snd (fit C m X y)) X"
    by (cases "fit C m X y") (simp add: fit_transform_after_fit)
next
  assume prep: "mh_fit_transform C (missing_handler m) X = (Inr X_prep, h_fit)"
    and fitted: "cls_fit (obj_class (encoder m)) (obj_state (encoder m)) X_prep y = (Inr (), st_fit)"
    and again: "mh_transform C h_fit X = (Inr X_again, h_again)"
  let ?m1 = "m\<lparr>encoder := (encoder m)\<lparr>obj_state := st_fit\<rparr>,
                memory_manager :=
                  profile_exit C ''fit'' (profile_enter C ''fit'' (memory_manager m)),
                missing_handler := h_fit\<rparr>"
  have one: "fit C m X y = (Inr (), ?m1)"
    using prep fitted by (rule fit_handler_returns)
  obtain r st where out: "cls_transform (obj_class (encoder m)) st_fit X_again = (r, st)"
    by (cases "cls_transform (obj_class (encoder m)) st_fit X_again") blast
  have "fst (transform C ?m1 X) = r"
    using again out by (simp add: transform_handler_returns)
  with one out show
    "fst (fit_transform C m X y) = fst (cls_transform (obj_class (encoder m)) st_fit X_again)"
    by (simp add: fit_transform_after_fit)
qed

theorem fit_transform_is_fit_then_transform_witness:
  "mh_fit_transform stub_collaborators (missing_handler onehot_manager) X0 =
     (Inr [PyStr ''a'', PyStr ''b'', PyStr ''missing'', PyStr ''a''], (PyNaN, True))
   \<and> cls_fit (obj_class (encoder onehot_manager)) (obj_state (encoder onehot_manager))
        [PyStr ''a'', PyStr ''b'', PyStr ''missing'', PyStr ''a''] y0 =
       (Inr (), Some [PyStr ''b'', PyStr ''missing'', PyStr ''a''])
   \<and> mh_transform stub_collaborators (PyNaN, True) X0 =
       (Inr [PyStr ''a'', PyStr ''b'', PyStr ''missing'', PyStr ''a''], (PyNaN, True))
   \<and> fst (fit_transform stub_collaborators onehot_manager X0 y0) =
       Inr [PyInt 2, PyInt 0, PyInt 1, PyInt 2]
   \<and> fst (fit stub_collaborators onehot_manager X0 y0) = Inr ()
   \<and> fit_transform stub_collaborators onehot_manager X0 y0 =
       transform stub_collaborators (snd (fit stub_collaborators onehot_manager X0 y0)) X0"
proof -
  have h1: "mh_fit_transform stub_collaborators (missing_handler onehot_manager) X0 =
     (Inr [PyStr ''a'', PyStr ''b'', PyStr ''missing'', PyStr ''a''], (PyNaN, True))"
    by (simp add: stub_defs onehot_manager_def)
  have h2: "cls_fit (obj_class (encoder onehot_manager)) (obj_state (encoder onehot_manager))
        [PyStr ''a'', PyStr ''b'', PyStr ''missing'', PyStr ''a''] y0 =
       (Inr (), Some [PyStr ''b'', PyStr ''missing'', PyStr ''a''])"
    by (simp add: stub_defs onehot_manager_def)
  have h3: "mh_transform stub_collaborators (PyNaN, True) X0 =
       (Inr [PyStr ''a'', PyStr ''b'', PyStr ''missing'', PyStr ''a''], (PyNaN, True))"
    by (simp add: stub_defs onehot_manager_def)
  have out: "fst (cls_transform (obj_class (encoder onehot_manager))
        (Some [PyStr ''b'', PyStr ''missing'', PyStr ''a''])
        [PyStr ''a'', PyStr ''b'', PyStr ''missing'', PyStr ''a'']) =
      Inr [PyInt 2, PyInt 0, PyInt 1, PyInt 2]"
    by (simp add: stub_defs onehot_manager_def)
  have ok: "fst (fit stub_collaborators onehot_manager X0 y0) = Inr ()"
    by (simp add: fit_onehot_manager)
  note inst = fit_transform_is_fit_then_transform [where C = stub_collaborators
      and m = onehot_manager and X = X0 and y = y0
      and X_prep = "[PyStr ''a'', PyStr ''b'', PyStr ''missing'', PyStr ''a'']"
      and h_fit = "(PyNaN, True)"
      and st_fit = "Some [PyStr ''b'', PyStr ''missing'', PyStr ''a'']"
      and X_again = "[PyStr ''a'', PyStr ''b'', PyStr ''missing'', PyStr ''a'']"
      and h_again = "(PyNaN, True)"]
  have a: "fst (fit_transform stub_collaborators onehot_manager X0 y0) =
       Inr [PyInt 2, PyInt 0, PyInt 1, PyInt 2]"
    using inst h1 h2 h3 unfolding out by blast
  have b: "fit_transform stub_collaborators onehot_manager X0 y0 =
       transform stub_collaborators (snd (fit stub_collaborators onehot_manager X0 y0)) X0"
    using inst ok by blast
  show ?thesis
    using h1 h2 h3 a b ok by blast
qed

text \<open>
  C7. \<^verbatim>\<open>fit\<close>, \<^verbatim>\<open>transform\<close> and \<^verbatim>\<open>fit_transform\<close> raise exactly the exceptions
  their collaborators raise, unchanged: the one of the handler, or else, the
  handler having returned, the one of the strategy; \<^verbatim>\<open>fit_transform\<close> raises
  the one of \<^verbatim>\<open>fit\<close>, or else, \<^verbatim>\<open>fit\<close> having returned, the one of
  \<^verbatim>\<open>transform\<close>. The first step that fails ends the call: when the handler
  raises, neither the strategy nor the profiler is touched, and when \<^verbatim>\<open>fit\<close>
  raises, \<^verbatim>\<open>fit_transform\<close> leaves the manager as \<^verbatim>\<open>fit\<close> left it. A call that
  raises returns no frame.
\<close>

theorem collaborator_exceptions_propagate:
  "(fst (fit C m X y) = Inl e \<longleftrightarrow>
      fst (mh_fit_transform C (missing_handler m) X) = Inl e
    \<or> (\<exists>X_prep. fst (mh_fit_transform C (missing_handler m) X) = Inr X_prep
         \<and> fst (cls_fit (obj_class (encoder m)) (obj_state (encoder m)) X_prep y) = Inl e))
   \<and> (fst (transform C m X) = Inl e \<longleftrightarrow>
      fst (mh_transform C (missing_handler m) X) = Inl e
    \<or> (\<exists>X_prep. fst (mh_transform C (missing_handler m) X) = Inr X_prep
         \<and> fst (cls_transform (obj_class (encoder m)) (obj_state (encoder m)) X_prep) = Inl e))
   \<and> (fst (fit_transform C m X y) = Inl e \<longleftrightarrow>
      fst (fit C m X y) = Inl e
    \<or> (fst (fit C m X y) = Inr () \<and> fst (transform C (snd (fit C m X y)) X) = Inl e))
   \<and> (mh_fit_transform C (missing_handler m) X = (Inl e, h) \<longrightarrow>
        fit C m X y = (Inl e, m\<lparr>missing_handler := h\<rparr>))
   \<and> (mh_transform C (missing_handler m) X = (Inl e, h) \<longrightarrow>
        transform C m X = (Inl e, m\<lparr>missing_handler := h\<rparr>))
   \<and> (fst (fit C m X y) = Inl e \<longrightarrow> fit_transform C m X y = (Inl e, snd (fit C m X y)))"
proof -
  have aborted: "fit_transform C m X y = (Inl e, snd (fit C m X y))"
    if "fst (fit C m X y) = Inl e"
    using that by (cases "fit C m X y") (simp add: fit_transform_after_fit)
  show ?thesis
    using fit_raises_iff [of C m X y e] transform_raises_iff [of C m X e]
      fit_transform_raises_iff [of C m X y e]
      fit_handler_raises [of C m X e h y] transform_handler_raises [of C m X e h] aborted
    by blast
qed

theorem collaborator_exceptions_propagate_witness:
  "mh_fit_transform failing_collaborators (missing_handler onehot_manager) X0 =
     (Inl (Raised ''TypeError'' ''not a frame''), (PyNaN, False))
   \<and> fit failing_collaborators onehot_manager X0 y0 =
       (Inl (Raised ''TypeError'' ''not a frame''),
        onehot_manager\<lparr>missing_handler := (PyNaN, False)\<rparr>)
   \<and> fit_transform failing_collaborators onehot_manager X0 y0 =
       (Inl (Raised ''TypeError'' ''not a frame''),
        snd (fit failing_collaborators onehot_manager X0 y0))
   \<and> mh_transform stub_collaborators (missing_handler onehot_manager) X0 =
       (Inl (Raised ''NotFittedError'' ''handler is not fitted''), (PyNaN, False))
   \<and> transform stub_collaborators onehot_manager X0 =
       (Inl (Raised ''NotFittedError'' ''handler is not fitted''),
        onehot_manager\<lparr>missing_handler := (PyNaN, False)\<rparr>)
   \<and> fst (cls_fit (obj_class (encoder broken_manager)) (obj_state (encoder broken_manager))
             [PyStr ''a'', PyStr ''b'', PyStr ''missing'', PyStr ''a''] y0) =
       Inl (Raised ''RuntimeError'' ''cannot fit'')
   \<and> fst (fit stub_collaborators broken_manager X0 y0) = Inl (Raised ''RuntimeError'' ''cannot fit'')
   \<and> fst (fit_transform stub_collaborators broken_manager X0 y0) =
       Inl (Raised ''RuntimeError'' ''cannot fit'')"
proof -
  have h1: "mh_fit_transform failing_collaborators (missing_handler onehot_manager) X0 =
     (Inl (Raised ''TypeError'' ''not a frame''), (PyNaN, False))"
    by (simp add: stub_defs failing_collaborators_def onehot_manager_def)
  have h2: "mh_transform stub_collaborators (missing_handler onehot_manager) X0 =
       (Inl (Raised ''NotFittedError'' ''handler is not fitted''), (PyNaN, False))"
    by (simp add: stub_defs onehot_manager_def)
  have h3: "fst (mh_fit_transform stub_collaborators (missing_handler broken_manager) X0) =
      Inr [PyStr ''a'', PyStr ''b'', PyStr ''missing'', PyStr ''a'']"
    by (simp add: stub_defs broken_manager_def onehot_manager_def)
  have h4: "fst (cls_fit (obj_class (encoder broken_manager)) (obj_state (encoder broken_manager))
             [PyStr ''a'', PyStr ''b'', PyStr ''missing'', PyStr ''a''] y0) =
       Inl (Raised ''RuntimeError'' ''cannot fit'')"
    by (simp add: stub_defs broken_manager_def onehot_manager_def broken_class_def)
  note handler = collaborator_exceptions_propagate [where C = failing_collaborators
      and m = onehot_manager and X = X0 and y = y0
      and e = "Raised ''TypeError'' ''not a frame''" and h = "(PyNaN, False)"]
  note unfitted = collaborator_exceptions_propagate [where C = stub_collaborators
      and m = onehot_manager and X = X0 and y = y0
      and e = "Raised ''NotFittedError'' ''handler is not fitted''" and h = "(PyNaN, False)"]
  note strategy = collaborator_exceptions_propagate [where C = stub_collaborators
      and m = broken_manager and X = X0 and y = y0
      and e = "Raised ''RuntimeError'' ''cannot fit''"]
  have a: "fit failing_collaborators onehot_manager X0 y0 =
       (Inl (Raised ''TypeError'' ''not a frame''),
        onehot_manager\<lparr>missing_handler := (PyNaN, False)\<rparr>)"
    using handler h1 by blast
  have b: "fit_transform failing_collaborators onehot_manager X0 y0 =
       (Inl (Raised ''TypeError'' ''not a frame''),
        snd (fit failing_collaborators onehot_manager X0 y0))"
    using handler a by (metis fst_conv)
  have c: "transform stub_collaborators onehot_manager X0 =
       (Inl (Raised ''NotFittedError'' ''handler is not fitted''),
        onehot_manager\<lparr>missing_handler := (PyNaN, False)\<rparr>)"
    using unfitted h2 by blast
  have d: "fst (fit stub_collaborators broken_manager X0 y0) =
      Inl (Raised ''RuntimeError'' ''cannot fit'')"
    using strategy h3 h4 by blast
  have e: "fst (fit_transform stub_collaborators broken_manager X0 y0) =
       Inl (Raised ''RuntimeError'' ''cannot fit'')"
    using strategy d by blast
  show ?thesis
    using h1 h2 h4 a b c d e by blast
qed

text \<open>A recording class behaves as the class it wraps.\<close>

lemma recording_transparent:
  "fst (cls_fit (recording c) (st, seen) X y) = fst (cls_fit c st X y)
   \<and> fst (snd (cls_fit (recording c) (st, seen) X y)) = snd (cls_fit c st X y)
   \<and> fst (cls_transform (recording c) (st, seen) X) = fst (cls_transform c st X)
   \<and> fst (snd (cls_transform (recording c) (st, seen) X)) = snd (cls_transform c st X)"
  by (simp add: recording_def split: prod.splits)

text \<open>
  C4. Missing-value preparation comes before encoding. A recording strategy,
  whatever class it wraps and whatever the handler does, is called by \<^verbatim>\<open>fit\<close>
  with the frame the handler's \<^verbatim>\<open>fit_transform\<close> returned for \<open>X\<close> and with nothing
  else, and by \<^verbatim>\<open>transform\<close> with the frame the handler's \<^verbatim>\<open>transform\<close> returned
  for \<open>X\<close> and with nothing else; it is not called when the handler raises.
  So if no frame the handler returns holds a raw sentinel, \<open>raw\<close>, then the
  strategy never observes one, even when \<open>X\<close> holds it.
\<close>

theorem strategy_sees_prepared_frame_only:
  assumes "obj_class (encoder m) = recording c"
  shows "observed (snd (fit C m X y)) =
           observed m @
             (case fst (mh_fit_transform C (missing_handler m) X) of
                Inl e \<Rightarrow> [] | Inr X_prep \<Rightarrow> [X_prep])
       \<and> observed (snd (transform C m X)) =
           observed m @
             (case fst (mh_transform C (missing_handler m) X) of
                Inl e \<Rightarrow> [] | Inr X_prep \<Rightarrow> [X_prep])
       \<and> ((\<forall>F. fst (mh_fit_transform C (missing_handler m) X) = Inr F \<longrightarrow> \<not> raw F) \<longrightarrow>
            list_all (\<lambda>F. \<not> raw F) (observed m) \<longrightarrow>
            list_all (\<lambda>F. \<not> raw F) (observed (snd (fit C m X y))))
       \<and> ((\<forall>F. fst (mh_transform C (missing_handler m) X) = Inr F \<longrightarrow> \<not> raw F) \<longrightarrow>
            list_all (\<lambda>F. \<not> raw F) (observed m) \<longrightarrow>
            list_all (\<lambda>F. \<not> raw F) (observed (snd (transform C m X))))"
proof -
  have seen_fit: "observed (snd (fit C m X y)) =
      observed m @ (case fst (mh_fit_transform C (missing_handler m) X) of
                      Inl e \<Rightarrow> [] | Inr X_prep \<Rightarrow> [X_prep])"
  proof (cases "mh_fit_transform C (missing_handler m) X")
    case (Pair r h)
    show ?thesis
    proof (cases r)
      case (Inl e)
      with Pair show ?thesis
        by (simp add: fit_handler_raises observed_def)
    next
      case (Inr X_prep)
      obtain r' st where "cls_fit (obj_class (encoder m)) (obj_state (encoder m)) X_prep y = (r', st)"
        by (cases "cls_fit (obj_class (encoder m)) (obj_state (encoder m)) X_prep y") blast
      with Pair Inr assms show ?thesis
        by (auto simp: fit_handler_returns observed_def recording_def split: prod.splits)
    qed
  qed
  have seen_transform: "observed (snd (transform C m X)) =
      observed m @ (case fst (mh_transform C (missing_handler m) X) of
                      Inl e \<Rightarrow> [] | Inr X_prep \<Rightarrow> [X_prep])"
  proof (cases "mh_transform C (missing_handler m) X")
    case (Pair r h)
    show ?thesis
    proof (cases r)
      case (Inl e)
      with Pair show ?thesis
        by (simp add: transform_handler_raises observed_def)
    next
      case (Inr X_prep)
      obtain r' st where "cls_transform (obj_class (encoder m)) (obj_state (encoder m)) X_prep = (r', st)"
        by (cases "cls_transform (obj_class (encoder m)) (obj_state (encoder m)) X_prep") blast
      with Pair Inr assms show ?thesis
        by (auto simp: transform_handler_returns observed_def recording_def split: prod.splits)
    qed
  qed
  show ?thesis
    unfolding seen_fit seen_transform
    by (auto split: sum.splits)
qed

theorem strategy_sees_prepared_frame_only_witness:
  "obj_class (encoder recording_manager) = recording (stub_class ''OneHotStub'')
   \<and> PyNone \<in> set X1
   \<and> observed recording_manager = []
   \<and> observed (snd (fit stub_collaborators recording_manager X1 y1)) =
       [[PyStr ''a'', PyStr ''b'', PyStr ''missing'']]
   \<and> list_all (\<lambda>F. PyNone \<notin> set F)
        (observed (snd (fit stub_collaborators recording_manager X1 y1)))
   \<and> observed (snd (transform stub_collaborators
        (snd (fit stub_collaborators recording_manager X1 y1)) X1)) =
       [[PyStr ''a'', PyStr ''b'', PyStr ''missing''], [PyStr ''a'', PyStr ''b'', PyStr ''missing'']]"
proof -
  have cls: "obj_class (encoder recording_manager) = recording (stub_class ''OneHotStub'')"
    by (simp add: recording_manager_def)
  have raw: "PyNone \<in> set X1"
    by (simp add: X1_def)
  have none: "observed recording_manager = []"
    by (simp add: recording_manager_def observed_def)
  have prep: "fst (mh_fit_transform stub_collaborators (missing_handler recording_manager) X1) =
      Inr [PyStr ''a'', PyStr ''b'', PyStr ''missing'']"
    by (simp add: stub_defs recording_manager_def X1_def)
  have fitted: "missing_handler (snd (fit stub_collaborators recording_manager X1 y1)) = (PyNone, True)"
    by (simp add: model_defs stub_defs recording_manager_def recording_def X1_def y1_def)
  have cls2: "obj_class (encoder (snd (fit stub_collaborators recording_manager X1 y1))) =
      recording (stub_class ''OneHotStub'')"
    by (simp add: model_defs stub_defs recording_manager_def recording_def X1_def y1_def)
  have prep2: "fst (mh_transform stub_collaborators (PyNone, True) X1) =
      Inr [PyStr ''a'', PyStr ''b'', PyStr ''missing'']"
    by (simp add: stub_defs X1_def)
  note first = strategy_sees_prepared_frame_only [OF cls, where C = stub_collaborators
      and X = X1 and y = y1 and raw = "\<lambda>F. PyNone \<in> set F"]
  note second = strategy_sees_prepared_frame_only [OF cls2, where C = stub_collaborators
      and X = X1 and y = y1 and raw = "\<lambda>F. PyNone \<in> set F"]
  have a: "observed (snd (fit stub_collaborators recording_manager X1 y1)) =
       [[PyStr ''a'', PyStr ''b'', PyStr ''missing'']]"
    using first by (simp add: prep none)
  have b: "list_all (\<lambda>F. PyNone \<notin> set F)
        (observed (snd (fit stub_collaborators recording_manager X1 y1)))"
    using first by (simp add: prep none)
  have c: "observed (snd (transform stub_collaborators
        (snd (fit stub_collaborators recording_manager X1 y1)) X1)) =
       [[PyStr ''a'', PyStr ''b'', PyStr ''missing''], [PyStr ''a'', PyStr ''b'', PyStr ''missing'']]"
    using second by (simp add: fitted prep2 a)
  show ?thesis
    using cls raw none a b c by blast
qed

section \<open>Registration\<close>

lemma registered_stays_registered:
  "registry P name \<noteq> None \<Longrightarrow>
   registry (fold (\<lambda>(n, k). register n k) later P) name \<noteq> None"
  by (induction later arbitrary: P) (auto simp: register_def)

lemma fit_keeps_class:
  "encoder_cls (snd (fit C m X y)) = encoder_cls m
   \<and> obj_class (encoder (snd (fit C m X y))) = obj_class (encoder m)"
  by (auto simp: fit_def enc_fit_def split: prod.splits sum.splits)

lemma transform_keeps_class:
  "encoder_cls (snd (transform C m X)) = encoder_cls m
   \<and> obj_class (encoder (snd (transform C m X))) = obj_class (encoder m)"
  by (auto simp: transform_def enc_transform_def split: prod.splits sum.splits)

lemma fit_transform_keeps_class:
  "encoder_cls (snd (fit_transform C m X y)) = encoder_cls m
   \<and> obj_class (encoder (snd (fit_transform C m X y))) = obj_class (encoder m)"
proof (cases "fit C m X y")
  case (Pair r m1)
  with fit_keeps_class [of C m X y] transform_keeps_class [of C m1 X]
  show ?thesis
    by (cases r) (simp_all add: fit_transform_def)
qed

text \<open>
  C8. Registration is global and additive. After \<^verbatim>\<open>register(name, c)\<close> the
  name resolves to \<open>c\<close>, every other name resolves as before, nothing has
  been constructed, and the name stays in the registry through any later
  registrations; a manager constructed under the name afterwards has a
  strategy of class \<open>c\<close>. A manager constructed under the name before has the
  class the registry held then, also when the name has since been registered
  again with another class, and \<^verbatim>\<open>fit\<close>, \<^verbatim>\<open>transform\<close> and \<^verbatim>\<open>fit_transform\<close>,
  which are not given the registry, leave its strategy type and the class of
  its strategy instance as they are.
\<close>

theorem register_global_additive:
  "registry (register name c P) name = Some c
   \<and> (name' \<noteq> name \<longrightarrow> registry (register name c P) name' = registry P name')
   \<and> constructed (register name c P) = constructed P
   \<and> registry (snd (init C scheme mm sv kw P)) = registry P
   \<and> registry (fold (\<lambda>(n, k). register n k) later (register name c P)) name \<noteq> None
   \<and> (cls_new c kw = Inr st \<longrightarrow>
        (\<exists>m. fst (init C (Some name) mm sv kw (register name c P)) = Inr m
           \<and> encoder_cls m = c \<and> encoder m = \<lparr>obj_class = c, obj_state = st\<rparr>))
   \<and> (init C (Some name) mm sv kw P = (Inr m_old, P_old) \<longrightarrow>
        registry P name = Some (encoder_cls m_old)
      \<and> obj_class (encoder m_old) = encoder_cls m_old
      \<and> registry (register name c P_old) name = Some c
      \<and> encoder_cls (snd (fit C m_old X y)) = encoder_cls m_old
      \<and> obj_class (encoder (snd (fit C m_old X y))) = encoder_cls m_old
      \<and> encoder_cls (snd (transform C m_old X)) = encoder_cls m_old
      \<and> obj_class (encoder (snd (transform C m_old X))) = encoder_cls m_old
      \<and> encoder_cls (snd (fit_transform C m_old X y)) = encoder_cls m_old
      \<and> obj_class (encoder (snd (fit_transform C m_old X y))) = encoder_cls m_old)"
proof -
  have stays: "registry (fold (\<lambda>(n, k). register n k) later (register name c P)) name \<noteq> None"
    by (rule registered_stays_registered) (simp add: register_def)
  have after: "cls_new c kw = Inr st \<longrightarrow>
        (\<exists>m. fst (init C (Some name) mm sv kw (register name c P)) = Inr m
           \<and> encoder_cls m = c \<and> encoder m = \<lparr>obj_class = c, obj_state = st\<rparr>)"
    by (auto simp: init_def register_def Let_def split: option.splits prod.splits)
  have keeps: "registry (snd (init C scheme mm sv kw P)) = registry P"
    by (auto simp: init_def Let_def split: option.splits sum.splits prod.splits)
  have before: "init C (Some name) mm sv kw P = (Inr m_old, P_old) \<longrightarrow>
        registry P name = Some (encoder_cls m_old) \<and> obj_class (encoder m_old) = encoder_cls m_old"
    by (auto simp: init_def Let_def split: option.splits sum.splits prod.splits)
  show ?thesis
    using stays after before keeps fit_keeps_class [of C m_old X y] transform_keeps_class [of C m_old X]
      fit_transform_keeps_class [of C m_old X y]
    by (simp add: register_def)
qed

theorem register_global_additive_witness:
  "registry (register ''ordinal'' (stub_class ''Ordinal'') builtin_process) ''ordinal''
     = Some (stub_class ''Ordinal'')
   \<and> ''woe'' \<noteq> ''ordinal''
   \<and> registry (register ''ordinal'' (stub_class ''Ordinal'') builtin_process) ''woe''
       = registry builtin_process ''woe''
   \<and> registry (fold (\<lambda>(n, k). register n k) [(''woe'', broken_class), (''onehot'', broken_class)]
        (register ''ordinal'' (stub_class ''Ordinal'') builtin_process)) ''ordinal'' \<noteq> None
   \<and> cls_new (stub_class ''Ordinal'') [] = Inr None
   \<and> (\<exists>m. fst (init stub_collaborators (Some ''ordinal'') None None []
                  (register ''ordinal'' (stub_class ''Ordinal'') builtin_process)) = Inr m
          \<and> encoder_cls m = stub_class ''Ordinal'')
   \<and> fst (init stub_collaborators (Some ''onehot'') None None [] builtin_process) = Inr onehot_manager
   \<and> registry (register ''onehot'' broken_class
                  (snd (init stub_collaborators (Some ''onehot'') None None [] builtin_process)))
        ''onehot'' = Some broken_class
   \<and> encoder_cls onehot_manager = stub_class ''OneHotEncoder''
   \<and> obj_class (encoder (snd (fit stub_collaborators onehot_manager X0 y0)))
       = stub_class ''OneHotEncoder''"
proof -
  have returns: "cls_new (stub_class ''Ordinal'') [] = Inr None"
    by (simp add: stub_class_def)
  have built: "init stub_collaborators (Some ''onehot'') None None [] builtin_process =
     (Inr onehot_manager,
      snd (init stub_collaborators (Some ''onehot'') None None [] builtin_process))"
    by (simp add: model_defs stub_defs onehot_manager_def)
  have cls: "encoder_cls onehot_manager = stub_class ''OneHotEncoder''"
    by (simp add: onehot_manager_def)
  note new = register_global_additive [where name = "''ordinal''" and c = "stub_class ''Ordinal''"
      and P = builtin_process and name' = "''woe''" and C = stub_collaborators
      and later = "[(''woe'', broken_class), (''onehot'', broken_class)]"
      and kw = "[]" and st = None and mm = None and sv = None]
  note old = register_global_additive [where name = "''onehot''" and c = broken_class
      and P = builtin_process and C = stub_collaborators and kw = "[]" and mm = None and sv = None
      and m_old = onehot_manager
      and P_old = "snd (init stub_collaborators (Some ''onehot'') None None [] builtin_process)"
      and X = X0 and y = y0]
  have a: "\<exists>m. fst (init stub_collaborators (Some ''ordinal'') None None []
                  (register ''ordinal'' (stub_class ''Ordinal'') builtin_process)) = Inr m
          \<and> encoder_cls m = stub_class ''Ordinal''"
    using new returns by blast
  have b: "registry (register ''onehot'' broken_class
                  (snd (init stub_collaborators (Some ''onehot'') None None [] builtin_process)))
        ''onehot'' = Some broken_class
      \<and> obj_class (encoder (snd (fit stub_collaborators onehot_manager X0 y0)))
       = encoder_cls onehot_manager"
    using old built by blast
  have c: "fst (init stub_collaborators (Some ''onehot'') None None [] builtin_process) = Inr onehot_manager"
    using built by (metis fst_conv)
  have d: "''woe'' \<noteq> ''ordinal''" by simp
  show ?thesis
    using new returns a b c d unfolding cls by blast
qed

section \<open>Round trip\<close>

text \<open>
  None of the four type names imported from \<^verbatim>\<open>.encoders\<close> is, lower-cased,
  a key of the registry of the class body. The names are ASCII, where
  \<^verbatim>\<open>str.lower\<close> is \<open>ascii_lower\<close>. So whatever the four classes do, loading what
  a manager of one of these types has saved fails.
\<close>

lemma builtin_type_names_unregistered:
  assumes "registry P = builtin_registry c_woe c_target c_loo c_onehot"
    and "cls_name (obj_class (encoder m)) \<in>
           {''WOEGuard'', ''TargetEncoder'', ''LeaveOneOutEncoder'', ''OneHotEncoder''}"
    and "str_lower C (cls_name (obj_class (encoder m))) =
           ascii_lower (cls_name (obj_class (encoder m)))"
  shows "fst (load C path (save m path fs) P) =
           Inl (not_registered (ascii_lower (cls_name (obj_class (encoder m)))))"
proof -
  have "registry P (ascii_lower (cls_name (obj_class (encoder m)))) = None"
    using assms(1,2) by (auto simp: builtin_registry_def ascii_lower_def ascii_lower_char_def)
  with assms(3) show ?thesis
    by (simp add: load_def save_def load_payload_def init_def Let_def)
qed

text \<open>
  Where the lower-cased type name of the strategy is registered and the
  constructor of the class registered under it returns without arguments, the
  loaded manager has the saved strategy and handler, and transforms every
  frame to what the saved manager transforms it to.
\<close>

lemma round_trip_when_type_name_registered:
  assumes "registry P (str_lower C (cls_name (obj_class (encoder m)))) = Some cls"
    and "cls_new cls [] = Inr st"
  shows "\<exists>loaded. fst (load C path (save m path fs) P) = Inr loaded
           \<and> encoder loaded = encoder m
           \<and> missing_handler loaded = missing_handler m
           \<and> fst (transform C loaded X) = fst (transform C m X)"
  using assms
  by (auto simp: load_def save_def load_payload_def init_def transform_def Let_def
           split: prod.splits sum.splits option.splits)

text \<open>
  C1. The round-trip law, at the default manager in the process as the
  module sets it up: \<^verbatim>\<open>EncodingManager()\<close> is built, fitted on \<open>X0\<close> and \<open>y0\<close>,
  transforms \<open>X0\<close>, and is saved; loading the file raises the \<^verbatim>\<open>ValueError\<close>
  for the name \<^verbatim>\<open>onehotencoder\<close> and returns no manager.
\<close>

theorem builtin_round_trip_fails:
  "init stub_collaborators None None None [] builtin_process =
     (Inr onehot_manager,
      builtin_process\<lparr>constructed := [Strategy ''OneHotEncoder'', Profiler, Handler]\<rparr>)
   \<and> fst (fit stub_collaborators onehot_manager X0 y0) = Inr ()
   \<and> fst (transform stub_collaborators (snd (fit stub_collaborators onehot_manager X0 y0)) X0)
       = Inr [PyInt 2, PyInt 0, PyInt 1, PyInt 2]
   \<and> fst (load stub_collaborators ''enc.joblib''
            (save (snd (fit stub_collaborators onehot_manager X0 y0)) ''enc.joblib'' Map.empty)
            (builtin_process\<lparr>constructed := [Strategy ''OneHotEncoder'', Profiler, Handler]\<rparr>))
       = Inl (ValueError ''Encoding 'onehotencoder' not registered'')"
proof -
  have a: "fst (transform stub_collaborators (snd (fit stub_collaborators onehot_manager X0 y0)) X0)
       = Inr [PyInt 2, PyInt 0, PyInt 1, PyInt 2]"
    by (simp add: fit_onehot_manager) (simp add: model_defs stub_defs onehot_manager_def fitted_encoder_def)
  have b: "fst (load stub_collaborators ''enc.joblib''
            (save (snd (fit stub_collaborators onehot_manager X0 y0)) ''enc.joblib'' Map.empty)
            (builtin_process\<lparr>constructed := [Strategy ''OneHotEncoder'', Profiler, Handler]\<rparr>))
       = Inl (ValueError ''Encoding 'onehotencoder' not registered'')"
    by (simp add: fit_onehot_manager)
       (simp add: model_defs stub_defs onehot_manager_def fitted_encoder_def not_registered_def)
  show ?thesis
    using a b init_builtin_default by (simp add: fit_onehot_manager)
qed

end
